theory Spec2Isabelle
  imports Main
begin

section \<open>The animation sheet of the sprite sub-system\<close>

text \<open>
  A shallow embedding of \<^verbatim>\<open>me.AnimationSheet\<close>: the object that owns the named
  animations of a sprite, selects the frame on display and advances it with the time
  deltas that the game loop hands to \<^verbatim>\<open>update\<close>.

  JavaScript numbers are modelled as integers (frame indices, milliseconds). The frame
  cursor alone can become \<^verbatim>\<open>NaN\<close> (a remainder by a length of zero), so it has a
  type of its own. An exception is a value: every operation returns the sheet as the
  exception leaves it, together with the error or the result.
\<close>

subsection \<open>Data\<close>

datatype jsnum = Num int | NaN

text \<open>One entry of the texture atlas: the sub-image drawn for one frame.\<close>

record region =
  offset :: "int \<times> int"
  width :: int
  height :: int
  angle :: int

text \<open>
  An element of the \<^verbatim>\<open>index\<close> array of \<^verbatim>\<open>addAnimation\<close>: a number, or anything
  else, which the source takes for a frame name.
\<close>

datatype index = IdxNum int | IdxStr string

text \<open>
  The two exceptions the sheet raises are both \<^verbatim>\<open>me.Renderable.Error\<close>:
  \<open>UnknownSequence\<close> carries the message "animation id '...' not defined",
  \<open>UnsupportedLookupKind\<close> the message "string parameters for addAnimation are only
  allowed for me.video.renderer.Texture". \<open>TypeError\<close> is the engine's own: a property
  read on \<^verbatim>\<open>undefined\<close> or \<^verbatim>\<open>null\<close>.
\<close>

datatype error = UnknownSequence string | UnsupportedLookupKind | TypeError

text \<open>
  The object literal stored in \<^verbatim>\<open>this.anim[name]\<close>. A slot of \<open>frame\<close> is \<open>None\<close>
  where the atlas lookup gave \<^verbatim>\<open>undefined\<close>. \<open>length_anim\<close> is the field
  \<^verbatim>\<open>length\<close>, \<open>animationspeed_anim\<close> the field \<^verbatim>\<open>animationspeed\<close> of the object.
\<close>

record animation =
  name :: string
  frame :: "region option list"
  idx :: jsnum
  length_anim :: nat
  animationspeed_anim :: int
  nextFrame :: int

text \<open>
  What a completion callback hands back: the value \<^verbatim>\<open>false\<close>, or anything else
  (also nothing). A callback is modelled by what it does to the state \<open>'w\<close> of the
  embedding program and by the value it returns; a callback that re-enters the sheet is
  outside the model.
\<close>

datatype cbresult = ReturnsFalse | ReturnsOther

datatype 'w onComplete = AnimId string | Callback "'w \<Rightarrow> 'w \<times> cbresult"

type_synonym ref = nat

text \<open>
  What \<^verbatim>\<open>this.current\<close> can hold. \<^verbatim>\<open>this.anim\<close> is a plain object literal, so
  \<^verbatim>\<open>this.anim[name]\<close> also finds what every object inherits from
  \<^verbatim>\<open>Object.prototype\<close>: \<open>Inherited k\<close> is the value of the inherited property \<open>k\<close>,
  a built-in function or, for \<^verbatim>\<open>__proto__\<close>, the prototype object itself.
\<close>

datatype target = Anim ref | Inherited string

text \<open>
  The sheet. \<^verbatim>\<open>this.current\<close> and the values of \<^verbatim>\<open>this.anim\<close> are references to
  shared animation objects, so the objects live in a store \<open>objs\<close> (a reference is a
  position in it) and \<open>anim\<close> and \<open>current\<close> hold references. \<open>anim\<close> holds the own
  properties of \<^verbatim>\<open>this.anim\<close>, one for each name given to \<^verbatim>\<open>addAnimation\<close>. An
  animation named \<^verbatim>\<open>__proto__\<close> is kept like any other: that its assignment makes the
  new object the prototype of \<^verbatim>\<open>this.anim\<close>, from which further names would then be
  inherited, is not modelled. \<open>inherited_idx\<close> and \<open>inherited_nextFrame\<close> are the
  properties \<^verbatim>\<open>idx\<close> and \<^verbatim>\<open>nextFrame\<close> that the sheet has written onto inherited
  objects, by the name under which \<^verbatim>\<open>this.anim\<close> inherits them. The fields
  \<open>sprite_offset\<close>, \<open>sprite_width\<close>, \<open>sprite_height\<close> and \<open>sprite_sourceAngle\<close> are
  \<^verbatim>\<open>this.offset\<close>, \<^verbatim>\<open>this.width\<close>, \<^verbatim>\<open>this.height\<close> and \<^verbatim>\<open>this._sourceAngle\<close>,
  inherited from \<^verbatim>\<open>me.Sprite\<close>.
\<close>

record 'w sheet =
  animationpause :: bool
  animationspeed :: int
  anim :: "string \<rightharpoonup> ref"
  objs :: "animation list"
  resetAnim :: "'w onComplete option"
  current :: "target option"
  textureAtlas :: "region list"
  atlasIndices :: "(string \<rightharpoonup> nat) option"
  sprite_offset :: "int \<times> int"
  sprite_width :: int
  sprite_height :: int
  sprite_sourceAngle :: int
  inherited_idx :: "string \<rightharpoonup> jsnum"
  inherited_nextFrame :: "string \<rightharpoonup> jsnum"
  world :: 'w

text \<open>
  The \<^verbatim>\<open>settings\<close> of the constructor: an atlas with its table of names, or a plain
  sprite sheet. For a sprite sheet the region list is what
  \<^verbatim>\<open>Texture.prototype.buildFromSpriteSheet(settings)\<close> returns; that function is not
  part of these sources and its result is taken as given.
\<close>

datatype settings = Atlas "region list" "string \<rightharpoonup> nat" | SpriteSheet "region list"

subsection \<open>The store and JavaScript's arithmetic\<close>

definition deref :: "'w sheet \<Rightarrow> ref \<Rightarrow> animation option" where
  "deref s r = (if r < length (objs s) then Some (objs s ! r) else None)"

text \<open>The current animation object, when \<^verbatim>\<open>this.current\<close> is one.\<close>

definition cur :: "'w sheet \<Rightarrow> animation option" where
  "cur s =
     (case current s of
        None \<Rightarrow> None
      | Some (Anim r) \<Rightarrow> deref s r
      | Some (Inherited k) \<Rightarrow> None)"

definition upd_obj :: "ref \<Rightarrow> (animation \<Rightarrow> animation) \<Rightarrow> 'w sheet \<Rightarrow> 'w sheet" where
  "upd_obj r f s = s\<lparr>objs := (objs s)[r := f (objs s ! r)]\<rparr>"

text \<open>\<^verbatim>\<open>a % n\<close>: the remainder has the sign of the dividend, and is \<^verbatim>\<open>NaN\<close> for \<open>n = 0\<close>.\<close>

definition js_rem :: "int \<Rightarrow> nat \<Rightarrow> jsnum" where
  "js_rem a n = (if n = 0 then NaN else Num (sgn a * (\<bar>a\<bar> mod int n)))"

text \<open>\<^verbatim>\<open>a % n\<close> where \<open>n\<close> may be \<^verbatim>\<open>undefined\<close>: \<^verbatim>\<open>NaN\<close> then.\<close>

fun js_rem_opt :: "int \<Rightarrow> nat option \<Rightarrow> jsnum" where
  "js_rem_opt a None = NaN"
| "js_rem_opt a (Some n) = js_rem a n"

text \<open>\<^verbatim>\<open>idx || 0\<close>: \<^verbatim>\<open>undefined\<close>, \<^verbatim>\<open>NaN\<close> and \<open>0\<close> are falsy.\<close>

fun or_zero :: "jsnum option \<Rightarrow> int" where
  "or_zero None = 0"
| "or_zero (Some NaN) = 0"
| "or_zero (Some (Num v)) = v"

fun js_inc :: "jsnum \<Rightarrow> jsnum" where
  "js_inc (Num v) = Num (v + 1)"
| "js_inc NaN = NaN"

text \<open>\<^verbatim>\<open>xs[i]\<close> on an array: \<^verbatim>\<open>undefined\<close> outside of it.\<close>

definition atlas_get :: "region list \<Rightarrow> int \<Rightarrow> region option" where
  "atlas_get atlas n = (if 0 \<le> n \<and> n < int (length atlas) then Some (atlas ! nat n) else None)"

fun frame_at :: "region option list \<Rightarrow> jsnum \<Rightarrow> region option" where
  "frame_at fs NaN = None"
| "frame_at fs (Num i) = (if 0 \<le> i \<and> i < int (length fs) then fs ! nat i else None)"

text \<open>\<^verbatim>\<open>resetAnim || null\<close>: the empty string is falsy.\<close>

fun or_null :: "'w onComplete option \<Rightarrow> 'w onComplete option" where
  "or_null (Some (AnimId [])) = None"
| "or_null p = p"

text \<open>\<^verbatim>\<open>animationspeed || this.animationspeed\<close>: a speed of \<open>0\<close> is falsy.\<close>

fun speed_or :: "int option \<Rightarrow> int \<Rightarrow> int" where
  "speed_or None d = d"
| "speed_or (Some v) d = (if v = 0 then d else v)"

text \<open>
  Modelled from the spec: \<^verbatim>\<open>me.Sprite.prototype.update\<close>, which every path of
  \<^verbatim>\<open>update\<close> calls through \<^verbatim>\<open>_super\<close>, is missing from the sources. The specification
  keeps the base renderable out of the controller and has a tick without a frame change
  return false, so the base update returns false and touches no field of the sheet.
\<close>

definition sprite_update :: "int \<Rightarrow> bool" where
  "sprite_update dt = False"

subsection \<open>What a plain object inherits\<close>

text \<open>
  The properties of \<^verbatim>\<open>Object.prototype\<close>, each with the \<^verbatim>\<open>length\<close> and the
  \<^verbatim>\<open>name\<close> of its value: for a built-in function its number of parameters and its
  name; \<^verbatim>\<open>constructor\<close> is the function \<^verbatim>\<open>Object\<close>; \<^verbatim>\<open>__proto__\<close> yields the
  prototype object, which has neither. All of these values are truthy, none of them has a
  property \<^verbatim>\<open>frame\<close>.
\<close>

definition object_prototype :: "(string \<times> nat option \<times> string option) list" where
  "object_prototype =
     [(''constructor'', Some 1, Some ''Object''),
      (''toString'', Some 0, Some ''toString''),
      (''toLocaleString'', Some 0, Some ''toLocaleString''),
      (''valueOf'', Some 0, Some ''valueOf''),
      (''hasOwnProperty'', Some 1, Some ''hasOwnProperty''),
      (''isPrototypeOf'', Some 1, Some ''isPrototypeOf''),
      (''propertyIsEnumerable'', Some 1, Some ''propertyIsEnumerable''),
      (''__defineGetter__'', Some 2, Some ''__defineGetter__''),
      (''__defineSetter__'', Some 2, Some ''__defineSetter__''),
      (''__lookupGetter__'', Some 1, Some ''__lookupGetter__''),
      (''__lookupSetter__'', Some 1, Some ''__lookupSetter__''),
      (''__proto__'', None, None)]"

definition inherited_length :: "string \<Rightarrow> nat option" where
  "inherited_length k = (case map_of object_prototype k of None \<Rightarrow> None | Some (n, m) \<Rightarrow> n)"

definition inherited_name :: "string \<Rightarrow> string option" where
  "inherited_name k = (case map_of object_prototype k of None \<Rightarrow> None | Some (n, m) \<Rightarrow> m)"

text \<open>
  \<^verbatim>\<open>this.anim[name]\<close>: an own property first, an inherited one otherwise, else
  \<^verbatim>\<open>undefined\<close>.
\<close>

definition anim_get :: "'w sheet \<Rightarrow> string \<Rightarrow> target option" where
  "anim_get s nm =
     (case anim s nm of
        Some r \<Rightarrow> Some (Anim r)
      | None \<Rightarrow>
          (case map_of object_prototype nm of
             Some v \<Rightarrow> Some (Inherited nm)
           | None \<Rightarrow> None))"

text \<open>
  Reading a property that the sheet may have written onto an inherited object: the
  object's own, or else the one written onto \<^verbatim>\<open>Object.prototype\<close>, from which the
  built-in functions inherit in their turn.
\<close>

definition inherited_get :: "(string \<rightharpoonup> jsnum) \<Rightarrow> string \<Rightarrow> jsnum option" where
  "inherited_get m k = (case m k of Some v \<Rightarrow> Some v | None \<Rightarrow> m ''__proto__'')"

subsection \<open>Operations\<close>

text \<open>
  The \<^verbatim>\<open>for\<close> loop of \<^verbatim>\<open>addAnimation\<close>: \<open>acc\<close> is \<^verbatim>\<open>this.anim[name].frame\<close> so far.
  It stops at the first name when there is no table of names.
\<close>

fun set_frames ::
  "region list \<Rightarrow> (string \<rightharpoonup> nat) option \<Rightarrow> index list \<Rightarrow> region option list
    \<Rightarrow> region option list \<times> error option" where
  "set_frames atlas tbl [] acc = (acc, None)"
| "set_frames atlas tbl (IdxNum n # xs) acc =
     set_frames atlas tbl xs (acc @ [atlas_get atlas n])"
| "set_frames atlas tbl (IdxStr k # xs) acc =
     (case tbl of
        None \<Rightarrow> (acc, Some UnsupportedLookupKind)
      | Some t \<Rightarrow>
          set_frames atlas tbl xs
            (acc @ [case t k of None \<Rightarrow> None | Some j \<Rightarrow> atlas_get atlas (int j)]))"

text \<open>\<^verbatim>\<open>index == null\<close> holds for \<^verbatim>\<open>null\<close> and \<^verbatim>\<open>undefined\<close> only: \<open>None\<close> here.\<close>

definition all_frames :: "region list \<Rightarrow> index list" where
  "all_frames atlas = map (\<lambda>j. IdxNum (int j)) [0..<length atlas]"

definition addAnimation ::
  "string \<Rightarrow> index list option \<Rightarrow> int option \<Rightarrow> 'w sheet \<Rightarrow> 'w sheet \<times> error option" where
  "addAnimation nm index spd s =
     (let r = length (objs s);
          a = \<lparr>name = nm, frame = [], idx = Num 0, length_anim = 0,
               animationspeed_anim = speed_or spd (animationspeed s), nextFrame = 0\<rparr>;
          s1 = s\<lparr>objs := objs s @ [a], anim := (anim s)(nm \<mapsto> r)\<rparr>;
          index' = (case index of None \<Rightarrow> all_frames (textureAtlas s) | Some xs \<Rightarrow> xs)
      in case set_frames (textureAtlas s) (atlasIndices s) index' [] of
           (fs, Some e) \<Rightarrow> (upd_obj r (\<lambda>a. a\<lparr>frame := fs\<rparr>) s1, Some e)
         | (fs, None) \<Rightarrow>
             (upd_obj r (\<lambda>a. a\<lparr>frame := fs, length_anim := length fs\<rparr>) s1, None))"

text \<open>
  On an inherited object \<^verbatim>\<open>setAnimationFrame\<close> writes \<^verbatim>\<open>idx\<close> and then throws:
  \<^verbatim>\<open>this.current.frame\<close> is \<^verbatim>\<open>undefined\<close>.
\<close>

definition setAnimationFrame :: "jsnum option \<Rightarrow> 'w sheet \<Rightarrow> 'w sheet \<times> error option" where
  "setAnimationFrame i s =
     (case current s of
        None \<Rightarrow> (s, Some TypeError)
      | Some (Inherited k) \<Rightarrow>
          (s\<lparr>inherited_idx :=
               (inherited_idx s)(k \<mapsto> js_rem_opt (or_zero i) (inherited_length k))\<rparr>,
           Some TypeError)
      | Some (Anim r) \<Rightarrow>
          (case deref s r of
             None \<Rightarrow> (s, Some TypeError)
           | Some a \<Rightarrow>
               (let k = js_rem (or_zero i) (length_anim a);
                    s1 = upd_obj r (\<lambda>a. a\<lparr>idx := k\<rparr>) s
                in case frame_at (frame a) k of
                     None \<Rightarrow> (s1, Some TypeError)
                   | Some f \<Rightarrow>
                       (s1\<lparr>sprite_offset := offset f, sprite_width := width f,
                           sprite_height := height f, sprite_sourceAngle := angle f\<rparr>,
                        None))))"

text \<open>
  \<^verbatim>\<open>this.current.idx\<close>, which is \<^verbatim>\<open>undefined\<close> (\<open>None\<close>) on an inherited object
  that has not been written to.
\<close>

definition getCurrentAnimationFrame :: "'w sheet \<Rightarrow> error + jsnum option" where
  "getCurrentAnimationFrame s =
     (case current s of
        None \<Rightarrow> Inl TypeError
      | Some (Inherited k) \<Rightarrow> Inr (inherited_get (inherited_idx s) k)
      | Some (Anim r) \<Rightarrow>
          (case deref s r of None \<Rightarrow> Inl TypeError | Some a \<Rightarrow> Inr (Some (idx a))))"

text \<open>
  For an inherited name the call of \<^verbatim>\<open>setAnimationFrame\<close> throws, so the assignment
  to \<^verbatim>\<open>nextFrame\<close> that follows it is never reached.
\<close>

definition setCurrentAnimation ::
  "string \<Rightarrow> 'w onComplete option \<Rightarrow> 'w sheet \<Rightarrow> 'w sheet \<times> error option" where
  "setCurrentAnimation nm ra s =
     (case anim_get s nm of
        None \<Rightarrow> (s, Some (UnknownSequence nm))
      | Some (Inherited k) \<Rightarrow>
          (let s1 = s\<lparr>current := Some (Inherited k), resetAnim := or_null ra\<rparr>
           in setAnimationFrame (inherited_get (inherited_idx s1) k) s1)
      | Some (Anim r) \<Rightarrow>
          (let s1 = s\<lparr>current := Some (Anim r), resetAnim := or_null ra\<rparr>
           in case deref s1 r of
                None \<Rightarrow> (s1, Some TypeError)
              | Some a \<Rightarrow>
                  (case setAnimationFrame (Some (idx a)) s1 of
                     (s2, Some e) \<Rightarrow> (s2, Some e)
                   | (s2, None) \<Rightarrow>
                       (upd_obj r (\<lambda>a. a\<lparr>nextFrame := animationspeed_anim a\<rparr>) s2, None))))"

definition isCurrentAnimation :: "string \<Rightarrow> 'w sheet \<Rightarrow> error + bool" where
  "isCurrentAnimation nm s =
     (case current s of
        None \<Rightarrow> Inl TypeError
      | Some (Inherited k) \<Rightarrow> Inr (inherited_name k = Some nm)
      | Some (Anim r) \<Rightarrow>
          (case deref s r of None \<Rightarrow> Inl TypeError | Some a \<Rightarrow> Inr (name a = nm)))"

text \<open>
  The constructor. \<open>g\<close> is the draw geometry that the constructor of \<^verbatim>\<open>me.Sprite\<close>
  (not part of these sources) leaves behind, \<open>w\<close> the state of the embedding program.
  The inherited objects start without any property written by a sheet.
\<close>

definition init :: "settings \<Rightarrow> region \<Rightarrow> 'w \<Rightarrow> 'w sheet \<times> error option" where
  "init st g w =
     (let s0 = \<lparr>animationpause = False, animationspeed = 100, anim = Map.empty, objs = [],
                resetAnim = None, current = None,
                textureAtlas = (case st of Atlas rs t \<Rightarrow> rs | SpriteSheet rs \<Rightarrow> rs),
                atlasIndices = (case st of Atlas rs t \<Rightarrow> Some t | SpriteSheet rs \<Rightarrow> None),
                sprite_offset = offset g, sprite_width = width g, sprite_height = height g,
                sprite_sourceAngle = angle g, inherited_idx = Map.empty,
                inherited_nextFrame = Map.empty, world = w\<rparr>
      in case addAnimation ''default'' None None s0 of
           (s1, Some e) \<Rightarrow> (s1, Some e)
         | (s1, None) \<Rightarrow> setCurrentAnimation ''default'' None s1)"

text \<open>
  The tail of the advancing branch of \<^verbatim>\<open>update\<close>: "set next frame timestamp", and
  the return of \<^verbatim>\<open>_super(...) || true\<close>. It runs only after \<^verbatim>\<open>setAnimationFrame\<close>,
  and \<^verbatim>\<open>setCurrentAnimation\<close> if called, have returned, and then \<^verbatim>\<open>this.current\<close> is
  an animation object (lemmas \<open>setAnimationFrame_returns\<close> and
  \<open>setCurrentAnimation_returns\<close> below); the other cases do not arise.
\<close>

definition rearm :: "int \<Rightarrow> 'w sheet \<Rightarrow> 'w sheet \<times> (error + bool)" where
  "rearm dt s =
     (case current s of
        Some (Anim r) \<Rightarrow>
          (upd_obj r (\<lambda>a. a\<lparr>nextFrame := animationspeed_anim a\<rparr>) s,
           Inr (sprite_update dt \<or> True))
      | _ \<Rightarrow> (s, Inl TypeError))"

text \<open>
  The branch taken when the callback returned \<^verbatim>\<open>false\<close>: back to the last frame,
  and \<^verbatim>\<open>return false\<close> without a new time stamp.
\<close>

definition hold :: "int \<Rightarrow> ref \<Rightarrow> 'w sheet \<Rightarrow> 'w sheet \<times> (error + bool)" where
  "hold dt r s =
     (let i = Num (int (length_anim (objs s ! r)) - 1);
          s1 = upd_obj r (\<lambda>a. a\<lparr>idx := i\<rparr>) s
      in case setAnimationFrame (Some i) s1 of
           (s2, Some e) \<Rightarrow> (s2, Inl e)
         | (s2, None) \<Rightarrow> (s2, Inr False))"

text \<open>
  The body of \<^verbatim>\<open>if (this.current.nextFrame <= 0)\<close>; \<open>r\<close> is \<^verbatim>\<open>this.current\<close> on
  entry. The empty string is a falsy \<^verbatim>\<open>resetAnim\<close>.
\<close>

definition advance :: "int \<Rightarrow> ref \<Rightarrow> 'w sheet \<Rightarrow> 'w sheet \<times> (error + bool)" where
  "advance dt r s =
     (let i = js_inc (idx (objs s ! r));
          s1 = upd_obj r (\<lambda>a. a\<lparr>idx := i\<rparr>) s
      in case setAnimationFrame (Some i) s1 of
           (s2, Some e) \<Rightarrow> (s2, Inl e)
         | (s2, None) \<Rightarrow>
             (if idx (objs s2 ! r) = Num 0 then
                (case resetAnim s2 of
                   None \<Rightarrow> rearm dt s2
                 | Some (AnimId nm) \<Rightarrow>
                     (if nm = [] then rearm dt s2
                      else case setCurrentAnimation nm None s2 of
                             (s3, Some e) \<Rightarrow> (s3, Inl e)
                           | (s3, None) \<Rightarrow> rearm dt s3)
                 | Some (Callback f) \<Rightarrow>
                     (case f (world s2) of
                        (w, ReturnsFalse) \<Rightarrow> hold dt r (s2\<lparr>world := w\<rparr>)
                      | (w, ReturnsOther) \<Rightarrow> rearm dt (s2\<lparr>world := w\<rparr>)))
              else rearm dt s2))"

text \<open>
  \<^verbatim>\<open>!this.animationpause && this.current.length > 1\<close> reads \<^verbatim>\<open>this.current\<close> only
  when the sheet is not paused. On an inherited function of two parameters the test
  succeeds; its \<^verbatim>\<open>nextFrame\<close> is \<^verbatim>\<open>undefined\<close> or \<^verbatim>\<open>NaN\<close>, so the decrement
  writes \<^verbatim>\<open>NaN\<close>, which is not \<^verbatim>\<open><= 0\<close>, and nothing advances.
\<close>

definition update :: "int \<Rightarrow> 'w sheet \<Rightarrow> 'w sheet \<times> (error + bool)" where
  "update dt s =
     (if animationpause s then (s, Inr (sprite_update dt))
      else case current s of
             None \<Rightarrow> (s, Inl TypeError)
           | Some (Inherited k) \<Rightarrow>
               (case inherited_length k of
                  None \<Rightarrow> (s, Inr (sprite_update dt))
                | Some n \<Rightarrow>
                    (if 1 < n then
                       (s\<lparr>inherited_nextFrame := (inherited_nextFrame s)(k \<mapsto> NaN)\<rparr>,
                        Inr (sprite_update dt))
                     else (s, Inr (sprite_update dt))))
           | Some (Anim r) \<Rightarrow>
               (case deref s r of
                  None \<Rightarrow> (s, Inl TypeError)
                | Some a \<Rightarrow>
                    (if 1 < length_anim a then
                       (let s1 = upd_obj r (\<lambda>a. a\<lparr>nextFrame := nextFrame a - dt\<rparr>) s
                        in if nextFrame a - dt \<le> 0 then advance dt r s1
                           else (s1, Inr (sprite_update dt)))
                     else (s, Inr (sprite_update dt)))))"

text \<open>
  The game loop: one \<^verbatim>\<open>update\<close> per time delta, in order, with the values returned.
  An exception ends the run.
\<close>

fun ticks :: "int list \<Rightarrow> 'w sheet \<Rightarrow> 'w sheet \<times> (error + bool list)" where
  "ticks [] s = (s, Inr [])"
| "ticks (dt # dts) s =
     (case update dt s of
        (s1, Inl e) \<Rightarrow> (s1, Inl e)
      | (s1, Inr b) \<Rightarrow>
          (case ticks dts s1 of
             (s2, Inl e) \<Rightarrow> (s2, Inl e)
           | (s2, Inr bs) \<Rightarrow> (s2, Inr (b # bs))))"

subsection \<open>A sheet to run the operations on\<close>

text \<open>
  A sprite sheet of seven cells of 64 by 64 pixels in a row, and the sheet of the source's
  own example: the constructor, then \<^verbatim>\<open>addAnimation("walk", [0, 1, 2, 3, 4, 5])\<close>,
  \<^verbatim>\<open>addAnimation("eat", [6, 6])\<close> and \<^verbatim>\<open>setCurrentAnimation("walk")\<close>. The state of
  the embedding program is a counter.
\<close>

definition cell :: "int \<Rightarrow> region" where
  "cell k = \<lparr>offset = (64 * k, 0), width = 64, height = 64, angle = 0\<rparr>"

definition cells :: "region list" where
  "cells = map cell [0, 1, 2, 3, 4, 5, 6]"

definition fresh :: "nat sheet" where
  "fresh = fst (init (SpriteSheet cells) (cell 0) 0)"

definition demo :: "nat sheet" where
  "demo = fst (setCurrentAnimation ''walk'' None
     (fst (addAnimation ''eat'' (Some (map IdxNum [6, 6])) None
       (fst (addAnimation ''walk'' (Some (map IdxNum [0, 1, 2, 3, 4, 5])) None fresh)))))"

text \<open>
  The three animation objects of the example sheet, as its store holds them: "default"
  was selected by the constructor, "walk" is selected, "eat" has never been.
\<close>

definition default_anim :: animation where
  "default_anim =
     \<lparr>name = ''default'', frame = map Some cells, idx = Num 0, length_anim = 7,
      animationspeed_anim = 100, nextFrame = 100\<rparr>"

definition walk_anim :: animation where
  "walk_anim =
     \<lparr>name = ''walk'', frame = map Some (take 6 cells), idx = Num 0, length_anim = 6,
      animationspeed_anim = 100, nextFrame = 100\<rparr>"

definition eat_anim :: animation where
  "eat_anim =
     \<lparr>name = ''eat'', frame = [Some (cell 6), Some (cell 6)], idx = Num 0, length_anim = 2,
      animationspeed_anim = 100, nextFrame = 0\<rparr>"

text \<open>\<open>walked\<close> is the example sheet one \<^verbatim>\<open>update(100)\<close> later: "walk" shows its frame 1.\<close>

definition walked :: "nat sheet" where
  "walked = fst (update 100 demo)"

text \<open>A sheet of a single cell: its default animation has one frame.\<close>

definition single :: "nat sheet" where
  "single = fst (init (SpriteSheet [cell 0]) (cell 0) 0)"




text \<open>
  \<open>half_built\<close> is the example sheet after \<^verbatim>\<open>addAnimation("half", [0, 1, "jump"])\<close>, which
  throws at the name, and \<^verbatim>\<open>setCurrentAnimation("half")\<close>.
\<close>

definition half_built :: "nat sheet" where
  "half_built = fst (setCurrentAnimation ''half'' None
     (fst (addAnimation ''half'' (Some [IdxNum 0, IdxNum 1, IdxStr ''jump'']) None demo)))"

subsection \<open>A callback that keeps returning false\<close>



subsection \<open>The cursor invariant\<close>

text \<open>
  An animation object is in order when its field \<^verbatim>\<open>length\<close> is still 0 (it was
  defined with no frame, or its definition was cut short by the throw, before the field
  is set), or when that field is the number of its frames and its cursor is a number from
  0 up to, and not including, that number. A sheet is in order when every object in its
  store is; \<^verbatim>\<open>setCurrentAnimation\<close> resumes from the cursor stored in the object it
  selects, so the objects that are not current matter too.
\<close>

definition idx_ok :: "animation \<Rightarrow> bool" where
  "idx_ok a =
     (length_anim a = 0 \<or>
      (length_anim a = length (frame a) \<and>
       (case idx a of NaN \<Rightarrow> False | Num i \<Rightarrow> 0 \<le> i \<and> i < int (length (frame a)))))"

definition sheet_ok :: "'w sheet \<Rightarrow> bool" where
  "sheet_ok s = list_all idx_ok (objs s)"

section \<open>Properties\<close>

subsection \<open>The loop of addAnimation\<close>

lemma set_frames_error:
  "snd (set_frames atlas tbl xs acc) =
     (if tbl = None \<and> (\<exists>k. IdxStr k \<in> set xs) then Some UnsupportedLookupKind else None)"
proof (induction xs arbitrary: acc)
  case Nil
  show ?case by simp
next
  case (Cons x xs)
  show ?case
  proof (cases x)
    case (IdxNum n)
    with Cons show ?thesis by auto
  next
    case (IdxStr k)
    with Cons show ?thesis by (cases tbl) auto
  qed
qed

lemma set_frames_numbers:
  "set_frames atlas tbl (map IdxNum ns @ rest) acc =
     set_frames atlas tbl rest (acc @ map (atlas_get atlas) ns)"
  by (induction ns arbitrary: acc) simp_all

lemma set_frames_all: "set_frames atlas tbl (all_frames atlas) [] = (map Some atlas, None)"
proof -
  have "all_frames atlas = map IdxNum (map int [0..<length atlas]) @ []"
    by (simp add: all_frames_def)
  then have "set_frames atlas tbl (all_frames atlas) [] =
      (map (atlas_get atlas) (map int [0..<length atlas]), None)"
    using set_frames_numbers [of atlas tbl "map int [0..<length atlas]" "[]" "[]"] by simp
  moreover have "map (atlas_get atlas) (map int [0..<length atlas]) = map Some atlas"
    by (rule nth_equalityI) (simp_all add: atlas_get_def)
  ultimately show ?thesis by simp
qed

subsection \<open>The example sheet, evaluated\<close>

lemma fresh_eq:
  "fresh =
     \<lparr>animationpause = False, animationspeed = 100, anim = [''default'' \<mapsto> 0],
      objs = [default_anim], resetAnim = None, current = Some (Anim 0), textureAtlas = cells,
      atlasIndices = None, sprite_offset = (0, 0), sprite_width = 64, sprite_height = 64,
      sprite_sourceAngle = 0, inherited_idx = Map.empty,
      inherited_nextFrame = Map.empty, world = 0\<rparr>"
  by (simp add: fresh_def init_def addAnimation_def setCurrentAnimation_def anim_get_def
      setAnimationFrame_def Let_def set_frames_all upd_obj_def deref_def js_rem_def
      default_anim_def cells_def cell_def)

lemma demo_eq:
  "demo =
     \<lparr>animationpause = False, animationspeed = 100,
      anim = [''default'' \<mapsto> 0, ''walk'' \<mapsto> 1, ''eat'' \<mapsto> 2],
      objs = [default_anim, walk_anim, eat_anim], resetAnim = None, current = Some (Anim 1),
      textureAtlas = cells, atlasIndices = None, sprite_offset = (0, 0), sprite_width = 64,
      sprite_height = 64, sprite_sourceAngle = 0, inherited_idx = Map.empty,
      inherited_nextFrame = Map.empty, world = 0\<rparr>"
  by (simp add: demo_def fresh_eq addAnimation_def setCurrentAnimation_def anim_get_def
      setAnimationFrame_def Let_def upd_obj_def deref_def js_rem_def atlas_get_def
      walk_anim_def eat_anim_def cells_def cell_def eval_nat_numeral)

subsection \<open>Defining a sequence\<close>

text \<open>
  C6 (as amended). \<^verbatim>\<open>addAnimation\<close> with the index list absent (\<^verbatim>\<open>null\<close> or
  \<^verbatim>\<open>undefined\<close>) stores under the name a fresh sequence with every frame of the atlas,
  in atlas order, so as many frames as the atlas has. With an empty index array it stores
  a sequence of no frames: only the absent list stands for "every frame".
\<close>

theorem addAnimation_absent_or_empty:
  "addAnimation nm None spd s =
     (s\<lparr>objs := objs s @
           [\<lparr>name = nm, frame = map Some (textureAtlas s), idx = Num 0,
             length_anim = length (textureAtlas s),
             animationspeed_anim = speed_or spd (animationspeed s), nextFrame = 0\<rparr>],
         anim := (anim s)(nm \<mapsto> length (objs s))\<rparr>,
      None) \<and>
   addAnimation nm (Some []) spd s =
     (s\<lparr>objs := objs s @
           [\<lparr>name = nm, frame = [], idx = Num 0, length_anim = 0,
             animationspeed_anim = speed_or spd (animationspeed s), nextFrame = 0\<rparr>],
         anim := (anim s)(nm \<mapsto> length (objs s))\<rparr>,
      None)"
  by (simp add: addAnimation_def Let_def set_frames_all upd_obj_def)

text \<open>
  C6 as stated fails: on the example sheet, whose atlas has seven frames,
  \<^verbatim>\<open>addAnimation("idle", [])\<close> succeeds and stores a sequence without any frame.
\<close>

theorem addAnimation_empty_counterexample:
  "length (textureAtlas demo) = 7 \<and>
   snd (addAnimation ''idle'' (Some []) None demo) = None \<and>
   anim (fst (addAnimation ''idle'' (Some []) None demo)) ''idle'' = Some 3 \<and>
   deref (fst (addAnimation ''idle'' (Some []) None demo)) 3 =
     Some \<lparr>name = ''idle'', frame = [], idx = Num 0, length_anim = 0,
           animationspeed_anim = 100, nextFrame = 0\<rparr>"
  by (simp add: demo_eq addAnimation_def Let_def upd_obj_def deref_def cells_def)

text \<open>
  C8. \<^verbatim>\<open>addAnimation\<close> throws the "string parameters" error exactly when the sheet has
  no table of names and some element of the index list is a name; it throws nothing
  else, so a list of numbers, or no list, never fails.
\<close>

theorem addAnimation_unsupported:
  "(snd (addAnimation nm index spd s) = Some UnsupportedLookupKind) =
     (atlasIndices s = None \<and> (\<exists>xs k. index = Some xs \<and> IdxStr k \<in> set xs)) \<and>
   (snd (addAnimation nm index spd s) = None \<or>
    snd (addAnimation nm index spd s) = Some UnsupportedLookupKind)"
proof -
  let ?xs = "case index of None \<Rightarrow> all_frames (textureAtlas s) | Some xs \<Rightarrow> xs"
  have e: "snd (addAnimation nm index spd s) =
      snd (set_frames (textureAtlas s) (atlasIndices s) ?xs [])"
    by (simp add: addAnimation_def Let_def split: prod.splits option.splits)
  have n: "\<not> (\<exists>k. IdxStr k \<in> set (all_frames atlas))" for atlas
    by (auto simp: all_frames_def)
  show ?thesis
    unfolding e set_frames_error using n by (cases index) auto
qed

text \<open>
  C9. When \<^verbatim>\<open>addAnimation\<close> throws at a name, the sheet keeps the object it stored
  before the loop: \<^verbatim>\<open>this.anim[name]\<close> is a fresh object (whatever it was before),
  its frames are those of the numbers that came before the name, and its \<^verbatim>\<open>length\<close>
  is still 0. Nothing is rolled back.
\<close>

theorem addAnimation_not_atomic:
  assumes "atlasIndices s = None"
  shows "addAnimation nm (Some (map IdxNum ns @ IdxStr k # rest)) spd s =
     (s\<lparr>objs := objs s @
           [\<lparr>name = nm, frame = map (atlas_get (textureAtlas s)) ns, idx = Num 0,
             length_anim = 0, animationspeed_anim = speed_or spd (animationspeed s),
             nextFrame = 0\<rparr>],
         anim := (anim s)(nm \<mapsto> length (objs s))\<rparr>,
      Some UnsupportedLookupKind)"
  using assms
  by (simp add: addAnimation_def Let_def set_frames_numbers upd_obj_def)

theorem addAnimation_not_atomic_witness:
  "atlasIndices demo = None \<and>
   snd (addAnimation ''walk'' (Some (map IdxNum [0, 1] @ IdxStr ''jump'' # [IdxNum 2])) None demo)
     = Some UnsupportedLookupKind \<and>
   anim demo ''walk'' = Some 1 \<and>
   anim (fst (addAnimation ''walk''
     (Some (map IdxNum [0, 1] @ IdxStr ''jump'' # [IdxNum 2])) None demo)) ''walk'' = Some 3 \<and>
   deref (fst (addAnimation ''walk''
     (Some (map IdxNum [0, 1] @ IdxStr ''jump'' # [IdxNum 2])) None demo)) 3 =
     Some \<lparr>name = ''walk'', frame = [Some (cell 0), Some (cell 1)], idx = Num 0,
           length_anim = 0, animationspeed_anim = 100, nextFrame = 0\<rparr>"
proof -
  have h: "atlasIndices demo = None"
    by (simp add: demo_eq)
  show ?thesis
    using h addAnimation_not_atomic [OF h, of "''walk''" "[0, 1]" "''jump''" "[IdxNum 2]" None]
    by (simp add: demo_eq deref_def atlas_get_def cells_def)
qed

subsection \<open>Auxiliary facts\<close>

lemma js_rem_nonneg: "0 \<le> a \<Longrightarrow> 0 < n \<Longrightarrow> js_rem a n = Num (a mod int n)"
  by (cases "a = 0") (simp_all add: js_rem_def)

lemma deref_SomeD: "deref s r = Some a \<Longrightarrow> r < length (objs s) \<and> objs s ! r = a"
  by (simp add: deref_def split: if_splits)

lemma setAnimationFrame_ok:
  assumes "current s = Some (Anim r)" "deref s r = Some a" "0 < length_anim a" "0 \<le> v"
    "frame_at (frame a) (Num (v mod int (length_anim a))) = Some f"
  shows "setAnimationFrame (Some (Num v)) s =
     (s\<lparr>objs := (objs s)[r := a\<lparr>idx := Num (v mod int (length_anim a))\<rparr>],
        sprite_offset := offset f, sprite_width := width f, sprite_height := height f,
        sprite_sourceAngle := angle f\<rparr>, None)"
  using assms deref_SomeD [OF assms(2)]
  by (simp add: setAnimationFrame_def Let_def js_rem_nonneg upd_obj_def del: frame_at.simps)

text \<open>What \<^verbatim>\<open>setAnimationFrame\<close> leaves alone.\<close>

lemma setAnimationFrame_fields [simp]:
  "current (fst (setAnimationFrame i s)) = current s"
  "resetAnim (fst (setAnimationFrame i s)) = resetAnim s"
  "world (fst (setAnimationFrame i s)) = world s"
  "anim (fst (setAnimationFrame i s)) = anim s"
  "length (objs (fst (setAnimationFrame i s))) = length (objs s)"
  by (simp_all add: setAnimationFrame_def Let_def upd_obj_def split: option.splits target.splits)

text \<open>
  \<^verbatim>\<open>setAnimationFrame\<close> and \<^verbatim>\<open>setCurrentAnimation\<close> return only when
  \<^verbatim>\<open>this.current\<close> is an animation object; on an inherited object they throw.
\<close>

lemma setAnimationFrame_inherited:
  "current s = Some (Inherited k) \<Longrightarrow> snd (setAnimationFrame i s) = Some TypeError"
  by (simp add: setAnimationFrame_def)

lemma setAnimationFrame_returns:
  "snd (setAnimationFrame i s) = None \<Longrightarrow> \<exists>r. current s = Some (Anim r)"
  by (cases "current s" rule: option.exhaust)
    (auto simp: setAnimationFrame_def split: target.splits)

lemma current_setCurrentAnimation:
  assumes "anim_get s nm = Some t"
  shows "current (fst (setCurrentAnimation nm ra s)) = Some t"
proof (cases t)
  case (Inherited k)
  with assms show ?thesis
    by (simp add: setCurrentAnimation_def Let_def)
next
  case (Anim r)
  let ?s1 = "s\<lparr>current := Some (Anim r), resetAnim := or_null ra\<rparr>"
  show ?thesis
  proof (cases "deref ?s1 r")
    case None
    with assms Anim show ?thesis
      by (simp add: setCurrentAnimation_def Let_def)
  next
    case (Some a)
    obtain s2 e where p: "setAnimationFrame (Some (idx a)) ?s1 = (s2, e)"
      by (cases "setAnimationFrame (Some (idx a)) ?s1")
    have "current s2 = Some (Anim r)"
      using setAnimationFrame_fields(1) [of "Some (idx a)" ?s1] p by simp
    with assms Anim Some p show ?thesis
      by (cases e) (simp_all add: setCurrentAnimation_def Let_def upd_obj_def)
  qed
qed

lemma setCurrentAnimation_returns:
  assumes "setCurrentAnimation nm ra s = (s', None)"
  shows "\<exists>r. current s' = Some (Anim r)"
proof (cases "anim_get s nm")
  case None
  with assms show ?thesis by (simp add: setCurrentAnimation_def)
next
  case (Some t)
  have c: "current s' = Some t"
    using current_setCurrentAnimation [OF Some, of ra] assms by simp
  show ?thesis
  proof (cases t)
    case (Inherited k)
    with Some have "snd (setCurrentAnimation nm ra s) = Some TypeError"
      by (simp add: setCurrentAnimation_def Let_def setAnimationFrame_inherited)
    with assms show ?thesis by simp
  next
    case (Anim r)
    with c show ?thesis by simp
  qed
qed

lemmas ops_defs = addAnimation_def setCurrentAnimation_def setAnimationFrame_def update_def
  advance_def hold_def rearm_def upd_obj_def deref_def cur_def js_rem_def atlas_get_def
  sprite_update_def getCurrentAnimationFrame_def isCurrentAnimation_def anim_get_def Let_def

lemmas demo_defs = default_anim_def walk_anim_def eat_anim_def cells_def cell_def

lemmas inherited_defs = object_prototype_def inherited_length_def inherited_name_def
  inherited_get_def

lemma single_eq:
  "single =
     \<lparr>animationpause = False, animationspeed = 100, anim = [''default'' \<mapsto> 0],
      objs = [\<lparr>name = ''default'', frame = [Some (cell 0)], idx = Num 0, length_anim = 1,
        animationspeed_anim = 100, nextFrame = 100\<rparr>], resetAnim = None, current = Some (Anim 0),
      textureAtlas = [cell 0],
      atlasIndices = None, sprite_offset = (0, 0), sprite_width = 64, sprite_height = 64,
      sprite_sourceAngle = 0, inherited_idx = Map.empty,
      inherited_nextFrame = Map.empty, world = 0\<rparr>"
  by (simp add: single_def init_def addAnimation_def setCurrentAnimation_def anim_get_def
      setAnimationFrame_def Let_def set_frames_all upd_obj_def deref_def js_rem_def
      cell_def)



subsection \<open>Selecting a sequence\<close>

text \<open>
  \<^verbatim>\<open>setCurrentAnimation\<close> throws "animation id not defined" exactly when
  \<^verbatim>\<open>this.anim[name]\<close> finds nothing, neither an own property nor an inherited one, and
  then it has changed nothing.
\<close>

lemma setCurrentAnimation_not_defined:
  "(setCurrentAnimation nm ra s = (s, Some (UnknownSequence nm))) = (anim_get s nm = None)"
  "(snd (setCurrentAnimation nm ra s) = Some (UnknownSequence n)) =
     (anim_get s nm = None \<and> n = nm)"
  by (auto simp: setCurrentAnimation_def setAnimationFrame_def Let_def deref_def
      split: option.splits prod.splits target.splits)

text \<open>
  C7 fails on the code. For a name that was never given to \<^verbatim>\<open>addAnimation\<close> but that
  every object inherits, the test \<^verbatim>\<open>if (this.anim[name])\<close> succeeds: on the example
  sheet \<^verbatim>\<open>setCurrentAnimation("constructor")\<close>, and likewise \<^verbatim>\<open>"toString"\<close> and
  \<^verbatim>\<open>"__proto__"\<close>, does not throw "animation id not defined". It makes the inherited
  value the current animation, so that "walk" is current no longer, writes \<^verbatim>\<open>idx\<close> onto
  it and throws a \<^verbatim>\<open>TypeError\<close>. A name that nothing defines, such as \<^verbatim>\<open>"fly"\<close>, does
  raise the error and changes nothing.
\<close>

theorem setCurrentAnimation_inherited_name:
  "anim demo ''constructor'' = None \<and> anim demo ''toString'' = None \<and>
   anim demo ''__proto__'' = None \<and> anim demo ''fly'' = None \<and>
   isCurrentAnimation ''walk'' demo = Inr True \<and>
   snd (setCurrentAnimation ''constructor'' None demo) = Some TypeError \<and>
   current (fst (setCurrentAnimation ''constructor'' None demo)) =
     Some (Inherited ''constructor'') \<and>
   isCurrentAnimation ''walk'' (fst (setCurrentAnimation ''constructor'' None demo)) =
     Inr False \<and>
   getCurrentAnimationFrame (fst (setCurrentAnimation ''constructor'' None demo)) =
     Inr (Some (Num 0)) \<and>
   snd (setCurrentAnimation ''toString'' None demo) = Some TypeError \<and>
   current (fst (setCurrentAnimation ''toString'' None demo)) = Some (Inherited ''toString'') \<and>
   snd (setCurrentAnimation ''__proto__'' None demo) = Some TypeError \<and>
   current (fst (setCurrentAnimation ''__proto__'' None demo)) = Some (Inherited ''__proto__'') \<and>
   setCurrentAnimation ''fly'' None demo = (demo, Some (UnknownSequence ''fly''))"
  by (simp add: demo_eq ops_defs inherited_defs demo_defs)

subsection \<open>The tick\<close>

lemma update_idle:
  assumes "animationpause s \<or> (\<exists>a. cur s = Some a \<and> length_anim a = 1)"
  shows "update dt s = (s, Inr False)"
  using assms
  by (auto simp: update_def cur_def sprite_update_def split: option.splits target.splits)

text \<open>
  C4. While the sheet is paused, or while the current animation has exactly one frame,
  \<^verbatim>\<open>update\<close> returns false and leaves the sheet as it is, whatever the time delta: the
  cursor and the countdown keep their values and no time is banked, over any number of
  ticks.
\<close>

theorem update_paused_or_single:
  assumes "animationpause s \<or> (\<exists>a. cur s = Some a \<and> length_anim a = 1)"
  shows "update dt s = (s, Inr False) \<and>
    ticks dts s = (s, Inr (replicate (length dts) False))"
proof
  show "update dt s = (s, Inr False)"
    using assms by (rule update_idle)
  show "ticks dts s = (s, Inr (replicate (length dts) False))"
    by (induction dts) (simp_all add: update_idle [OF assms])
qed

theorem update_paused_or_single_witness:
  "animationpause (demo\<lparr>animationpause := True\<rparr>) \<and>
   ticks [30, 500, 70] (demo\<lparr>animationpause := True\<rparr>) =
     (demo\<lparr>animationpause := True\<rparr>, Inr [False, False, False]) \<and>
   (\<exists>a. cur single = Some a \<and> length_anim a = 1) \<and>
   ticks [100, 250] single = (single, Inr [False, False]) \<and>
   getCurrentAnimationFrame single = Inr (Some (Num 0))"
proof -
  have p: "animationpause (demo\<lparr>animationpause := True\<rparr>)"
    by simp
  have q: "\<exists>a. cur single = Some a \<and> length_anim a = 1"
    by (simp add: single_eq cur_def deref_def)
  have g: "getCurrentAnimationFrame single = Inr (Some (Num 0))"
    by (simp add: single_eq getCurrentAnimationFrame_def cur_def deref_def)
  show ?thesis
    using p q g
      update_paused_or_single [OF disjI1 [OF p], of 0 "[30, 500, 70]"]
      update_paused_or_single [OF disjI2 [OF q], of 0 "[100, 250]"]
    by simp
qed

text \<open>
  C1 (as amended). On a running animation of at least two frames, with the cursor in
  range and no completion policy about to fire, a tick whose delta brings the countdown
  to zero or below advances the cursor by exactly one frame (wrapping at the end), applies
  that frame's geometry, returns true and sets the countdown back to the full frame
  duration, however far below zero it went: the remainder is discarded. A tick that leaves
  the countdown positive only decrements it and returns false.
\<close>

theorem update_advances_once:
  assumes "\<not> animationpause s" "current s = Some (Anim r)" "deref s r = Some a"
    "1 < length_anim a" "idx a = Num i" "0 \<le> i" "i < int (length_anim a)"
    "frame_at (frame a) (Num ((i + 1) mod int (length_anim a))) = Some f"
    "resetAnim s = None \<or> i + 1 < int (length_anim a)"
  shows "update dt s =
     (if nextFrame a - dt \<le> 0 then
        (s\<lparr>objs := (objs s)[r := a\<lparr>idx := Num ((i + 1) mod int (length_anim a)),
                                     nextFrame := animationspeed_anim a\<rparr>],
           sprite_offset := offset f, sprite_width := width f, sprite_height := height f,
           sprite_sourceAngle := angle f\<rparr>, Inr True)
      else (s\<lparr>objs := (objs s)[r := a\<lparr>nextFrame := nextFrame a - dt\<rparr>]\<rparr>, Inr False))"
proof (cases "nextFrame a - dt \<le> 0")
  case False
  with assms deref_SomeD [OF assms(3)] show ?thesis
    by (simp add: update_def upd_obj_def sprite_update_def)
next
  case True
  let ?n = "int (length_anim a)"
  let ?a2 = "a\<lparr>nextFrame := nextFrame a - dt, idx := Num (i + 1)\<rparr>"
  let ?s2 = "s\<lparr>objs := (objs s)[r := ?a2]\<rparr>"
  have r: "r < length (objs s)" "objs s ! r = a"
    using deref_SomeD [OF assms(3)] by simp_all
  have u: "update dt s = advance dt r (upd_obj r (\<lambda>a. a\<lparr>nextFrame := nextFrame a - dt\<rparr>) s)"
    using assms True r by (simp add: update_def)
  have d2: "current ?s2 = Some (Anim r)" "deref ?s2 r = Some ?a2"
    using r assms(2) by (simp_all add: deref_def)
  have saf: "setAnimationFrame (Some (Num (i + 1))) ?s2 =
     (s\<lparr>objs := (objs s)[r := a\<lparr>nextFrame := nextFrame a - dt, idx := Num ((i + 1) mod ?n)\<rparr>],
        sprite_offset := offset f, sprite_width := width f, sprite_height := height f,
        sprite_sourceAngle := angle f\<rparr>, None)"
    using setAnimationFrame_ok [OF d2, of "i + 1" f] assms by simp
  have z: "resetAnim s = None" if m: "(i + 1) mod ?n = 0"
  proof (rule ccontr)
    assume "resetAnim s \<noteq> None"
    with assms(9) have "i + 1 < ?n" by simp
    with assms(6) have "(i + 1) mod ?n = i + 1" by simp
    with m assms(6) show False by simp
  qed
  show ?thesis
    unfolding u using True r assms(2,5) z
    by (simp add: advance_def Let_def upd_obj_def saf rearm_def sprite_update_def)
qed

theorem update_advances_once_witness:
  "cur demo = Some walk_anim \<and> resetAnim demo = None \<and>
   snd (update 150 demo) = Inr True \<and>
   cur (fst (update 150 demo)) = Some (walk_anim\<lparr>idx := Num 1, nextFrame := 100\<rparr>) \<and>
   sprite_offset (fst (update 150 demo)) = (64, 0) \<and>
   snd (update 30 demo) = Inr False \<and>
   cur (fst (update 30 demo)) = Some (walk_anim\<lparr>nextFrame := 70\<rparr>)"
proof -
  have h: "\<not> animationpause demo" "current demo = Some (Anim 1)" "deref demo 1 = Some walk_anim"
    "1 < length_anim walk_anim" "idx walk_anim = Num 0" "(0::int) \<le> 0"
    "0 < int (length_anim walk_anim)"
    "frame_at (frame walk_anim) (Num ((0 + 1) mod int (length_anim walk_anim))) = Some (cell 1)"
    "resetAnim demo = None \<or> 0 + 1 < int (length_anim walk_anim)"
    by (simp_all add: demo_eq deref_def walk_anim_def cells_def)
  have c: "cur demo = Some walk_anim" "resetAnim demo = None"
    by (simp_all add: demo_eq cur_def deref_def)
  show ?thesis
    using c update_advances_once [OF h, of 150] update_advances_once [OF h, of 30]
    by (simp add: cur_def deref_def demo_eq walk_anim_def cell_def)
qed

text \<open>
  The two scenarios of the specification run as it says: on "walk" (six frames, 100 ms),
  a tick of 100 advances to frame 1 and two ticks of 50 advance once more, at the second
  of them; on "eat" (two frames) ticks of 100 advance every time and the cursor
  alternates between 1 and 0.
\<close>

lemma spec_scenarios:
  "snd (ticks [100, 50, 50] demo) = Inr [True, False, True]"
  "getCurrentAnimationFrame (fst (ticks [100] demo)) = Inr (Some (Num 1))"
  "getCurrentAnimationFrame (fst (ticks [100, 50, 50] demo)) = Inr (Some (Num 2))"
  "snd (ticks [100, 100, 100] (fst (setCurrentAnimation ''eat'' None demo))) =
     Inr [True, True, True]"
  "getCurrentAnimationFrame (fst (ticks [100] (fst (setCurrentAnimation ''eat'' None demo)))) =
     Inr (Some (Num 1))"
  "getCurrentAnimationFrame
     (fst (ticks [100, 100] (fst (setCurrentAnimation ''eat'' None demo)))) = Inr (Some (Num 0))"
  "getCurrentAnimationFrame
     (fst (ticks [100, 100, 100] (fst (setCurrentAnimation ''eat'' None demo)))) = Inr (Some (Num 1))"
  by (simp_all add: demo_eq ops_defs demo_defs)

text \<open>
  C1 as stated fails: with a frame duration of 100, a tick of 150 advances once and
  leaves a countdown of 100, not of 50, and a following tick of 50 does not advance,
  although 200 milliseconds, two full durations, have passed.
\<close>

theorem update_discards_remainder_counterexample:
  "cur demo = Some walk_anim \<and> animationspeed_anim walk_anim = 100 \<and>
   snd (ticks [150, 50] demo) = Inr [True, False] \<and>
   cur (fst (update 150 demo)) = Some (walk_anim\<lparr>idx := Num 1, nextFrame := 100\<rparr>) \<and>
   cur (fst (ticks [150, 50] demo)) = Some (walk_anim\<lparr>idx := Num 1, nextFrame := 50\<rparr>)"
  by (simp add: demo_eq ops_defs demo_defs)

subsection \<open>Holding on the last frame\<close>












subsection \<open>The cursor stays in range\<close>

lemma idx_ok_nextFrame [simp]: "idx_ok (a\<lparr>nextFrame := t\<rparr>) = idx_ok a"
  by (simp add: idx_ok_def split: jsnum.splits)

lemma idx_ok_rem:
  assumes "idx_ok a" "length_anim a = 0 \<or> 0 \<le> v"
  shows "idx_ok (a\<lparr>idx := js_rem v (length_anim a)\<rparr>)"
proof (cases "length_anim a = 0")
  case True
  then show ?thesis by (simp add: idx_ok_def)
next
  case False
  with assms(2) have "js_rem v (length_anim a) = Num (v mod int (length_anim a))"
    by (simp add: js_rem_nonneg)
  with False assms(1) show ?thesis by (simp add: idx_ok_def)
qed

lemma idx_ok_last: "idx_ok a \<Longrightarrow> idx_ok (a\<lparr>idx := Num (int (length_anim a) - 1)\<rparr>)"
  by (auto simp: idx_ok_def)

lemma list_all_update: "list_all P xs \<Longrightarrow> P x \<Longrightarrow> list_all P (xs[r := x])"
  using set_update_subset_insert [of xs r x] by (auto simp: list_all_iff)

lemma or_zero_ok: "idx_ok a \<Longrightarrow> length_anim a = 0 \<or> 0 \<le> or_zero (Some (idx a))"
  by (cases "idx a") (auto simp: idx_ok_def)

lemma cur_idx_ok: "sheet_ok s \<Longrightarrow> cur s = Some a \<Longrightarrow> idx_ok a"
  by (auto simp: sheet_ok_def cur_def deref_def list_all_length
      split: option.splits target.splits if_splits)

lemma cur_SomeD: "cur s = Some a \<Longrightarrow> \<exists>r. current s = Some (Anim r) \<and> deref s r = Some a"
  by (auto simp: cur_def split: option.splits target.splits)

lemma setAnimationFrame_objs:
  "objs (fst (setAnimationFrame i s)) =
     (case current s of
        Some (Anim r) \<Rightarrow>
          (case deref s r of
             None \<Rightarrow> objs s
           | Some a \<Rightarrow> (objs s)[r := a\<lparr>idx := js_rem (or_zero i) (length_anim a)\<rparr>])
      | _ \<Rightarrow> objs s)"
  by (auto simp: setAnimationFrame_def Let_def upd_obj_def deref_def
      split: option.splits target.splits)

lemma sheet_ok_setAnimationFrame:
  assumes "sheet_ok s" "\<forall>a. cur s = Some a \<longrightarrow> length_anim a = 0 \<or> 0 \<le> or_zero i"
  shows "sheet_ok (fst (setAnimationFrame i s))"
proof (cases "cur s")
  case None
  with assms(1) show ?thesis
    by (auto simp: sheet_ok_def setAnimationFrame_objs cur_def
        split: option.splits target.splits)
next
  case (Some a)
  obtain r where r: "current s = Some (Anim r)" "deref s r = Some a"
    using cur_SomeD [OF Some] by auto
  have "idx_ok (a\<lparr>idx := js_rem (or_zero i) (length_anim a)\<rparr>)"
    using cur_idx_ok [OF assms(1) Some] assms(2) Some by (intro idx_ok_rem) auto
  with assms(1) r show ?thesis
    by (simp add: sheet_ok_def setAnimationFrame_objs list_all_update)
qed

lemma sheet_ok_upd_nextFrame [simp]:
  "sheet_ok (upd_obj r (\<lambda>a. a\<lparr>nextFrame := g a\<rparr>) s) = sheet_ok s"
  by (cases "r < length (objs s)")
    (auto simp: sheet_ok_def upd_obj_def list_all_length nth_list_update)

lemma sheet_ok_fields [simp]:
  "sheet_ok (s\<lparr>world := w\<rparr>) = sheet_ok s"
  "sheet_ok (s\<lparr>inherited_nextFrame := m\<rparr>) = sheet_ok s"
  "sheet_ok (s\<lparr>current := c, resetAnim := p\<rparr>) = sheet_ok s"
  by (simp_all add: sheet_ok_def)

lemma sheet_ok_addAnimation:
  assumes "sheet_ok s"
  shows "sheet_ok (fst (addAnimation nm index spd s))"
  using assms
  by (auto simp: addAnimation_def Let_def sheet_ok_def upd_obj_def idx_ok_def
      split: prod.splits option.splits)

lemma sheet_ok_setCurrentAnimation:
  assumes "sheet_ok s"
  shows "sheet_ok (fst (setCurrentAnimation nm ra s))"
proof (cases "anim_get s nm")
  case None
  with assms show ?thesis by (simp add: setCurrentAnimation_def)
next
  case (Some t)
  show ?thesis
  proof (cases t)
    case (Inherited k)
    let ?s1 = "s\<lparr>current := Some (Inherited k), resetAnim := or_null ra\<rparr>"
    have "sheet_ok (fst (setAnimationFrame i ?s1))" for i
      using assms by (intro sheet_ok_setAnimationFrame) (simp_all add: cur_def)
    with Some Inherited show ?thesis
      by (simp add: setCurrentAnimation_def Let_def)
  next
    case (Anim r)
    let ?s1 = "s\<lparr>current := Some (Anim r), resetAnim := or_null ra\<rparr>"
    have ok1: "sheet_ok ?s1"
      using assms by simp
    show ?thesis
    proof (cases "deref ?s1 r")
      case None
      with Some Anim ok1 show ?thesis by (simp add: setCurrentAnimation_def)
    next
      case (Some a)
      have c: "cur ?s1 = Some a"
        using Some by (simp add: cur_def)
      have "sheet_ok (fst (setAnimationFrame (Some (idx a)) ?s1))"
        using ok1 c or_zero_ok [OF cur_idx_ok [OF ok1 c]]
        by (intro sheet_ok_setAnimationFrame) auto
      with \<open>anim_get s nm = Some t\<close> Anim Some show ?thesis
        by (cases "setAnimationFrame (Some (idx a)) ?s1")
          (auto simp: setCurrentAnimation_def split: option.splits)
    qed
  qed
qed

lemma sheet_ok_rearm: "sheet_ok s \<Longrightarrow> sheet_ok (fst (rearm dt s))"
  by (simp add: rearm_def split: option.splits target.splits)

lemma sheet_ok_hold:
  assumes "sheet_ok s" "current s = Some (Anim r)" "r < length (objs s)"
  shows "sheet_ok (fst (hold dt r s))"
proof -
  let ?n = "length_anim (objs s ! r)"
  let ?i = "Num (int ?n - 1)"
  let ?s1 = "upd_obj r (\<lambda>a. a\<lparr>idx := ?i\<rparr>) s"
  have "idx_ok (objs s ! r)"
    using assms(1,3) by (simp add: sheet_ok_def list_all_length)
  then have "idx_ok ((objs s ! r)\<lparr>idx := ?i\<rparr>)"
    by (rule idx_ok_last)
  then have ok1: "sheet_ok ?s1"
    using assms(1) by (simp add: sheet_ok_def upd_obj_def list_all_update)
  have c: "cur ?s1 = Some ((objs s ! r)\<lparr>idx := ?i\<rparr>)"
    using assms(2,3) by (simp add: cur_def deref_def upd_obj_def)
  have "sheet_ok (fst (setAnimationFrame (Some ?i) ?s1))"
    using ok1 c by (intro sheet_ok_setAnimationFrame) auto
  then show ?thesis
    by (cases "setAnimationFrame (Some ?i) ?s1")
      (auto simp: hold_def Let_def split: option.splits)
qed

lemma sheet_ok_advance:
  assumes "sheet_ok s" "current s = Some (Anim r)" "r < length (objs s)"
    "0 < length_anim (objs s ! r)"
  shows "sheet_ok (fst (advance dt r s))"
proof -
  let ?a = "objs s ! r"
  let ?i = "js_inc (idx ?a)"
  let ?s1 = "upd_obj r (\<lambda>a. a\<lparr>idx := ?i\<rparr>) s"
  let ?k = "js_rem (or_zero (Some ?i)) (length_anim ?a)"
  have ia: "idx_ok ?a"
    using assms(1,3) by (simp add: sheet_ok_def list_all_length)
  then obtain j where j: "idx ?a = Num j" "0 \<le> j"
    using assms(4) by (cases "idx ?a") (auto simp: idx_ok_def)
  have c: "current ?s1 = Some (Anim r)" "deref ?s1 r = Some (?a\<lparr>idx := ?i\<rparr>)"
    using assms(2,3) by (simp_all add: deref_def upd_obj_def)
  obtain s2 e where saf: "setAnimationFrame (Some ?i) ?s1 = (s2, e)"
    by (cases "setAnimationFrame (Some ?i) ?s1")
  have o2: "objs s2 = (objs s)[r := ?a\<lparr>idx := ?k\<rparr>]"
    using setAnimationFrame_objs [of "Some ?i" ?s1] c assms(3) unfolding saf
    by (simp add: upd_obj_def)
  have "idx_ok (?a\<lparr>idx := ?k\<rparr>)"
    using idx_ok_rem [OF ia, of "or_zero (Some ?i)"] j by simp
  then have ok2: "sheet_ok s2"
    using assms(1) o2 by (simp add: sheet_ok_def list_all_update)
  have f2: "current s2 = Some (Anim r)" "r < length (objs s2)"
    using setAnimationFrame_fields(1,5) [of "Some ?i" ?s1] c(1) assms(3) unfolding saf
    by (simp_all add: upd_obj_def)
  have h: "sheet_ok (fst (hold dt r (s2\<lparr>world := w\<rparr>)))" for w
    using ok2 f2 by (intro sheet_ok_hold) simp_all
  have sc: "sheet_ok x" if "setCurrentAnimation nm None s2 = (x, y)" for nm x y
    using sheet_ok_setCurrentAnimation [OF ok2, of nm None] that by simp
  show ?thesis
    using ok2 h
    by (auto simp: advance_def Let_def saf sheet_ok_rearm dest: sc
        split: option.splits onComplete.splits prod.splits cbresult.splits)
qed

lemma sheet_ok_update:
  assumes "sheet_ok s"
  shows "sheet_ok (fst (update dt s))"
proof -
  have "sheet_ok (fst (advance dt r (upd_obj r (\<lambda>a. a\<lparr>nextFrame := nextFrame a - dt\<rparr>) s)))"
    if "current s = Some (Anim r)" "deref s r = Some a" "1 < length_anim a" for r a
    using that assms deref_SomeD [OF that(2)]
    by (intro sheet_ok_advance) (simp_all, simp_all add: upd_obj_def)
  with assms show ?thesis
    by (auto simp: update_def Let_def split: option.splits target.splits)
qed

lemma sheet_ok_init: "sheet_ok (fst (init st g w))"
proof -
  let ?s0 = "\<lparr>animationpause = False, animationspeed = 100, anim = Map.empty, objs = [],
      resetAnim = None, current = None,
      textureAtlas = (case st of Atlas rs t \<Rightarrow> rs | SpriteSheet rs \<Rightarrow> rs),
      atlasIndices = (case st of Atlas rs t \<Rightarrow> Some t | SpriteSheet rs \<Rightarrow> None),
      sprite_offset = offset g, sprite_width = width g, sprite_height = height g,
      sprite_sourceAngle = angle g, inherited_idx = Map.empty,
      inherited_nextFrame = Map.empty, world = w\<rparr>"
  have "sheet_ok ?s0"
    by (simp add: sheet_ok_def)
  then have 1: "sheet_ok (fst (addAnimation ''default'' None None ?s0))"
    by (rule sheet_ok_addAnimation)
  show ?thesis
    using 1 sheet_ok_setCurrentAnimation [of "fst (addAnimation ''default'' None None ?s0)"]
    by (cases "addAnimation ''default'' None None ?s0")
      (auto simp: init_def Let_def split: option.splits)
qed

text \<open>
  C3 (as amended). Take a sheet in which every animation object whose field
  \<^verbatim>\<open>length\<close> is at least 1 has that field equal to the number of its frames and its
  cursor in the range from 0 up to, not including, that number; the constructor yields
  such a sheet. Then \<^verbatim>\<open>addAnimation\<close>, \<^verbatim>\<open>setCurrentAnimation\<close>, \<^verbatim>\<open>update\<close> and
  \<^verbatim>\<open>setAnimationFrame\<close> with no argument or a non-negative one all yield such a sheet
  again, whether they return or throw. In particular the cursor of a current animation
  whose \<^verbatim>\<open>length\<close> is at least 1 is a valid index into its frames, and
  \<^verbatim>\<open>setAnimationFrame(i)\<close> with \<open>0 \<le> i\<close> sets it to \<open>i mod frames.length\<close>. An object
  whose \<^verbatim>\<open>length\<close> is 0 (defined with no frame, or left half-built by a throw of
  \<^verbatim>\<open>addAnimation\<close>) is exempt.
\<close>

theorem currentIndex_in_range:
  assumes "sheet_ok s"
  shows "sheet_ok (fst (init st g w :: 'w sheet \<times> error option)) \<and>
    sheet_ok (fst (addAnimation nm index spd s)) \<and>
    sheet_ok (fst (setCurrentAnimation nm ra s)) \<and>
    (0 \<le> i \<longrightarrow> sheet_ok (fst (setAnimationFrame (Some (Num i)) s))) \<and>
    sheet_ok (fst (setAnimationFrame None s)) \<and>
    sheet_ok (fst (update dt s)) \<and>
    (\<forall>a. cur s = Some a \<longrightarrow> 0 < length_anim a \<longrightarrow>
       length (frame a) = length_anim a \<and>
       (\<exists>j. idx a = Num j \<and> 0 \<le> j \<and> j < int (length (frame a))) \<and>
       (0 \<le> i \<longrightarrow>
          getCurrentAnimationFrame (fst (setAnimationFrame (Some (Num i)) s)) =
            Inr (Some (Num (i mod int (length (frame a)))))) \<and>
       getCurrentAnimationFrame (fst (setAnimationFrame None s)) = Inr (Some (Num 0)))"
proof -
  have 1: "sheet_ok (fst (setAnimationFrame (Some (Num i)) s))" if "0 \<le> i"
    using assms that by (intro sheet_ok_setAnimationFrame) simp_all
  have 2: "sheet_ok (fst (setAnimationFrame None s))"
    using assms by (intro sheet_ok_setAnimationFrame) simp_all
  have 3: "length (frame a) = length_anim a \<and>
      (\<exists>j. idx a = Num j \<and> 0 \<le> j \<and> j < int (length (frame a)))"
    if "cur s = Some a" "0 < length_anim a" for a
    using cur_idx_ok [OF assms that(1)] that(2)
    by (cases "idx a") (simp_all add: idx_ok_def)
  have 4: "getCurrentAnimationFrame (fst (setAnimationFrame v s)) =
      Inr (Some (Num (or_zero v mod int (length (frame a)))))"
    if c: "cur s = Some a" "0 < length_anim a" "0 \<le> or_zero v" for a v
  proof -
    obtain r where r: "current s = Some (Anim r)" "deref s r = Some a"
      using cur_SomeD [OF c(1)] by auto
    have l: "length (frame a) = length_anim a"
      using 3 [OF c(1,2)] by simp
    show ?thesis
      using c r l deref_SomeD [OF r(2)] setAnimationFrame_objs [of v s]
        setAnimationFrame_fields(1) [of v s]
      by (simp add: getCurrentAnimationFrame_def deref_def js_rem_nonneg)
  qed
  show ?thesis
    using sheet_ok_init [of st g w] sheet_ok_addAnimation [OF assms]
      sheet_ok_setCurrentAnimation [OF assms] sheet_ok_update [OF assms] 1 2 3
      4 [of _ "Some (Num i)"] 4 [of _ None]
    by auto
qed

theorem currentIndex_in_range_witness:
  "sheet_ok demo \<and> cur demo = Some walk_anim \<and> length_anim walk_anim = 6 \<and>
   length (frame walk_anim) = 6 \<and>
   sheet_ok (fst (addAnimation ''roll'' (Some (map IdxNum [3, 4])) (Some 200) demo)) \<and>
   sheet_ok (fst (setCurrentAnimation ''eat'' None demo)) \<and>
   sheet_ok (fst (setAnimationFrame (Some (Num 8)) demo)) \<and>
   sheet_ok (fst (update 100 demo)) \<and>
   idx walk_anim = Num 0 \<and>
   getCurrentAnimationFrame (fst (setAnimationFrame (Some (Num 8)) demo)) =
     Inr (Some (Num 2)) \<and>
   getCurrentAnimationFrame (fst (setAnimationFrame None demo)) = Inr (Some (Num 0))"
proof -
  have ok: "sheet_ok demo"
    by (simp add: demo_eq sheet_ok_def idx_ok_def demo_defs)
  have c: "cur demo = Some walk_anim" "length_anim walk_anim = 6"
    "length (frame walk_anim) = 6" "idx walk_anim = Num 0"
    by (simp_all add: demo_eq cur_def deref_def walk_anim_def cells_def)
  show ?thesis
    using ok c
      currentIndex_in_range [OF ok, of "SpriteSheet cells" "cell 0" 0 "''roll''"
        "Some (map IdxNum [3, 4])" "Some 200" None 8 100]
      currentIndex_in_range [OF ok, of "SpriteSheet cells" "cell 0" 0 "''eat''" None None None 8 100]
    by auto
qed

text \<open>
  C3 as stated fails, in two ways. For a negative argument: on the example sheet, whose
  current animation has six frames, \<^verbatim>\<open>setAnimationFrame(-1)\<close> leaves the cursor at
  \<open>-1\<close>, since \<^verbatim>\<open>%\<close> takes the sign of the dividend, and then throws on the missing
  frame. After another operation: \<^verbatim>\<open>addAnimation("half", [0, 1, "jump"])\<close> throws and
  leaves an object of two frames whose \<^verbatim>\<open>length\<close> is still 0; selecting it with
  \<^verbatim>\<open>setCurrentAnimation("half")\<close> computes \<^verbatim>\<open>0 % 0\<close>, and the cursor of the active
  sequence is \<^verbatim>\<open>NaN\<close>.
\<close>

theorem setAnimationFrame_negative_counterexample:
  "cur demo = Some walk_anim \<and> length (frame walk_anim) = 6 \<and>
   snd (setAnimationFrame (Some (Num (- 1))) demo) = Some TypeError \<and>
   getCurrentAnimationFrame (fst (setAnimationFrame (Some (Num (- 1))) demo)) =
     Inr (Some (Num (- 1))) \<and>
   snd (addAnimation ''half'' (Some [IdxNum 0, IdxNum 1, IdxStr ''jump'']) None demo) =
     Some UnsupportedLookupKind \<and>
   cur half_built =
     Some \<lparr>name = ''half'', frame = [Some (cell 0), Some (cell 1)], idx = NaN,
           length_anim = 0, animationspeed_anim = 100, nextFrame = 0\<rparr> \<and>
   getCurrentAnimationFrame half_built = Inr (Some NaN)"
  by (simp add: half_built_def demo_eq ops_defs demo_defs)

subsection \<open>Switching back to an animation\<close>

text \<open>
  C2 fails on the code. \<^verbatim>\<open>setCurrentAnimation\<close> calls
  \<^verbatim>\<open>setAnimationFrame(this.current.idx)\<close>: it resumes from the cursor stored in the
  animation object, where its own documentation says "set the frame to zero". The example
  sheet has shown frame 1 of "walk"; after a switch to "eat" and back, and likewise after
  "eat" has run to its end with "walk" as its chained successor, "walk" is current again
  with a full countdown, and its cursor is 1.
\<close>

theorem setCurrentAnimation_keeps_cursor:
  "cur walked = Some (walk_anim\<lparr>idx := Num 1\<rparr>) \<and>
   isCurrentAnimation ''eat'' (fst (setCurrentAnimation ''eat'' None walked)) = Inr True \<and>
   getCurrentAnimationFrame (fst (setCurrentAnimation ''eat'' None walked)) =
     Inr (Some (Num 0)) \<and>
   snd (setCurrentAnimation ''walk'' None (fst (setCurrentAnimation ''eat'' None walked))) = None \<and>
   cur (fst (setCurrentAnimation ''walk'' None (fst (setCurrentAnimation ''eat'' None walked)))) =
     Some (walk_anim\<lparr>idx := Num 1\<rparr>) \<and>
   snd (ticks [100, 100] (fst (setCurrentAnimation ''eat'' (Some (AnimId ''walk'')) walked))) =
     Inr [True, True] \<and>
   cur (fst (ticks [100, 100] (fst (setCurrentAnimation ''eat'' (Some (AnimId ''walk'')) walked)))) =
     Some (walk_anim\<lparr>idx := Num 1\<rparr>)"
  by (simp add: walked_def demo_eq ops_defs demo_defs)

end
